theory Spec2Isabelle
  imports Complex_Main
begin

section \<open>Treasury monitor: reward deltas, transaction classification, cache and fetch\<close>

text \<open>
  A shallow embedding of \<^verbatim>\<open>streamlit_complete_app.py\<close> (vault and lending deltas, the
  priority list) and of \<^verbatim>\<open>transaction_fetcher.py\<close> (classification, cache, paginated
  fetch).

  Numbers: Python's \<^verbatim>\<open>int\<close> is \<^typ>\<open>int\<close>. Python's \<^verbatim>\<open>float\<close> is idealised as
  \<^typ>\<open>real\<close>: every comparison against a threshold is the source's comparison on the
  value that was computed, but rounding, overflow, infinities and NaN are not part of the
  model. \<^verbatim>\<open>10 ** d\<close> for an integer \<open>d\<close> is \<open>10 powi d\<close>, which is Python's result for
  negative \<open>d\<close> as well.
\<close>

subsection \<open>Vault and lending snapshots\<close>

record token =
  symbol :: string
  decimals :: int
  price :: real

record vault =
  vault_id :: int
  supplyToken :: token
  borrowToken :: token
  totalSupply :: real
  totalSupplyLiquidity :: real
  totalBorrow :: real
  totalBorrowLiquidity :: real

record vault_info =
  team :: string
  incentive :: string

definition VAULT_MAPPING :: "(string \<times> vault_info) list" where
  "VAULT_MAPPING =
    [(''WSOL/USDC'', \<lparr>team = ''Fluid Team'', incentive = ''supply''\<rparr>),
     (''WSOL/USDT'', \<lparr>team = ''Fluid Team'', incentive = ''supply''\<rparr>),
     (''WSOL/USDG'', \<lparr>team = ''Fluid Team'', incentive = ''supply''\<rparr>),
     (''WSOL/EURC'', \<lparr>team = ''Fluid Team'', incentive = ''supply''\<rparr>),
     (''WSOL/USDS'', \<lparr>team = ''Fluid Team'', incentive = ''supply''\<rparr>),
     (''WSOL/cbBTC'', \<lparr>team = ''Fluid Team'', incentive = ''supply''\<rparr>),
     (''WSOL/xBTC'', \<lparr>team = ''Fluid Team'', incentive = ''supply''\<rparr>),
     (''syrupUSDC/USDC'', \<lparr>team = ''Jup + Maple'', incentive = ''borrow''\<rparr>),
     (''JUPSOL/USDG'', \<lparr>team = ''USDG Team'', incentive = ''borrow''\<rparr>),
     (''xBTC/USDG'', \<lparr>team = ''USDG Team'', incentive = ''borrow''\<rparr>),
     (''JitoSOL/USDG'', \<lparr>team = ''Jito + USDG'', incentive = ''borrow''\<rparr>),
     (''syrupUSDC/USDG'', \<lparr>team = ''Maple + USDG'', incentive = ''borrow''\<rparr>),
     (''LBTC/USDG'', \<lparr>team = ''Lombard + USDG'', incentive = ''borrow''\<rparr>),
     (''INF/SOL'', \<lparr>team = ''Sanctum'', incentive = ''borrow''\<rparr>),
     (''PST/USDC'', \<lparr>team = ''PST Team'', incentive = ''borrow''\<rparr>),
     (''LBTC/USDC'', \<lparr>team = ''Lombard + Fluid'', incentive = ''borrow''\<rparr>)]"

definition LENDING_MAPPING :: "(string \<times> string) list" where
  "LENDING_MAPPING =
    [(''USDC'', ''Jupiter''),
     (''USDT'', ''Fluid Team''),
     (''EURC'', ''Fluid Team''),
     (''USDS'', ''Fluid Team''),
     (''USDG'', ''Fluid Team'')]"

text \<open>
  \<^verbatim>\<open>str.title()\<close> on ASCII strings: a letter that follows a letter goes to lower case,
  any other letter to upper case.
\<close>

definition upper_char :: "char \<Rightarrow> char" where
  "upper_char c =
     (let n = (of_char c :: nat) in if 97 \<le> n \<and> n \<le> 122 then char_of (n - 32) else c)"

definition lower_char :: "char \<Rightarrow> char" where
  "lower_char c =
     (let n = (of_char c :: nat) in if 65 \<le> n \<and> n \<le> 90 then char_of (n + 32) else c)"

definition is_letter :: "char \<Rightarrow> bool" where
  "is_letter c =
     (let n = (of_char c :: nat) in (97 \<le> n \<and> n \<le> 122) \<or> (65 \<le> n \<and> n \<le> 90))"

fun title_from :: "bool \<Rightarrow> string \<Rightarrow> string" where
  "title_from prev [] = []"
| "title_from prev (c # cs) =
     (if prev then lower_char c else upper_char c) # title_from (is_letter c) cs"

definition title :: "string \<Rightarrow> string" where
  "title s = title_from False s"

text \<open>The columns of one row of the vault table.\<close>

record vault_row =
  Vault_ID :: int
  Vault_Pair :: string
  Supply_Token :: string
  Borrow_Token :: string
  Supply_Delta_Amount :: real
  Supply_Delta_USD :: real
  Borrow_Delta_Amount :: real
  Borrow_Delta_USD :: real
  Responsible_Party :: string
  Incentive_Type :: string
  Supply_Token_Price :: real
  Borrow_Token_Price :: real

text \<open>The local variables of the loop body of \<^verbatim>\<open>process_vault_data\<close>, as functions of the vault.\<close>

definition vault_pair :: "vault \<Rightarrow> string" where
  "vault_pair v = symbol (supplyToken v) @ ''/'' @ symbol (borrowToken v)"

definition supply_delta_amount :: "vault \<Rightarrow> real" where
  "supply_delta_amount v =
     (totalSupply v - totalSupplyLiquidity v) / (10 powi decimals (supplyToken v))"

definition supply_delta_usd :: "vault \<Rightarrow> real" where
  "supply_delta_usd v = supply_delta_amount v * price (supplyToken v)"

definition borrow_delta_amount :: "vault \<Rightarrow> real" where
  "borrow_delta_amount v =
     (totalBorrow v - totalBorrowLiquidity v) / (10 powi decimals (borrowToken v))"

definition borrow_delta_usd :: "vault \<Rightarrow> real" where
  "borrow_delta_usd v = borrow_delta_amount v * price (borrowToken v)"

definition vault_info_of :: "vault \<Rightarrow> vault_info" where
  "vault_info_of v =
     (case map_of VAULT_MAPPING (vault_pair v) of
        Some info \<Rightarrow> info
      | None \<Rightarrow> \<lparr>team = ''Unknown'', incentive = ''unknown''\<rparr>)"

definition vault_row_of :: "vault \<Rightarrow> vault_row" where
  "vault_row_of v =
     \<lparr>Vault_ID = vault_id v,
      Vault_Pair = vault_pair v,
      Supply_Token = symbol (supplyToken v),
      Borrow_Token = symbol (borrowToken v),
      Supply_Delta_Amount = supply_delta_amount v,
      Supply_Delta_USD = supply_delta_usd v,
      Borrow_Delta_Amount = borrow_delta_amount v,
      Borrow_Delta_USD = borrow_delta_usd v,
      Responsible_Party = team (vault_info_of v),
      Incentive_Type = title (incentive (vault_info_of v)),
      Supply_Token_Price = price (supplyToken v),
      Borrow_Token_Price = price (borrowToken v)\<rparr>"

text \<open>\<^verbatim>\<open>process_vault_data\<close>: the loop appends a row for a vault or appends nothing.\<close>

fun process_vault_data :: "vault list \<Rightarrow> vault_row list" where
  "process_vault_data [] = []"
| "process_vault_data (v # vaults) =
     (if \<bar>supply_delta_usd v\<bar> > 100 \<or> \<bar>borrow_delta_usd v\<bar> > 100
      then vault_row_of v # process_vault_data vaults
      else process_vault_data vaults)"

record asset =
  asset_symbol :: string
  asset_name :: string
  asset_decimals :: int
  asset_price :: real

record lending_token =
  lending_id :: int
  lending_asset :: asset
  totalAssets :: real
  liquiditySupplyData_supply :: real

record lending_row =
  Lending_ID :: int
  Token :: string
  Token_Name :: string
  Rewards_Amount :: real
  Rewards_USD :: real
  Lending_Responsible_Party :: string
  Token_Price :: real
  Total_Assets :: real
  Liquidity_Supply :: real

definition rewards_amount :: "lending_token \<Rightarrow> real" where
  "rewards_amount t =
     (totalAssets t - liquiditySupplyData_supply t) / (10 powi asset_decimals (lending_asset t))"

definition rewards_usd :: "lending_token \<Rightarrow> real" where
  "rewards_usd t = rewards_amount t * asset_price (lending_asset t)"

definition lending_row_of :: "lending_token \<Rightarrow> lending_row" where
  "lending_row_of t =
     \<lparr>Lending_ID = lending_id t,
      Token = asset_symbol (lending_asset t),
      Token_Name = asset_name (lending_asset t),
      Rewards_Amount = rewards_amount t,
      Rewards_USD = rewards_usd t,
      Lending_Responsible_Party =
        (case map_of LENDING_MAPPING (asset_symbol (lending_asset t)) of
           Some r \<Rightarrow> r | None \<Rightarrow> ''Unknown''),
      Token_Price = asset_price (lending_asset t),
      Total_Assets = totalAssets t / (10 powi asset_decimals (lending_asset t)),
      Liquidity_Supply =
        liquiditySupplyData_supply t / (10 powi asset_decimals (lending_asset t))\<rparr>"

fun process_lending_data :: "lending_token list \<Rightarrow> lending_row list" where
  "process_lending_data [] = []"
| "process_lending_data (t # tokens) =
     (if \<bar>rewards_usd t\<bar> > 100
      then lending_row_of t # process_lending_data tokens
      else process_lending_data tokens)"

subsection \<open>The priority list of the analytics tab\<close>

record priority =
  Type :: string
  Item :: string
  Amount_USD :: real
  Team :: string
  Priority :: string

text \<open>
  The two loops that fill \<^verbatim>\<open>priorities\<close>: a vault row appends its supply entry, then
  its borrow entry; the lending rows follow.
\<close>

fun vault_priorities :: "vault_row list \<Rightarrow> priority list" where
  "vault_priorities [] = []"
| "vault_priorities (row # rows) =
     (if Supply_Delta_USD row > 100000
      then [\<lparr>Type = ''Vault Supply'', Item = Vault_Pair row,
             Amount_USD = Supply_Delta_USD row, Team = Responsible_Party row,
             Priority = (if Supply_Delta_USD row > 300000 then ''High'' else ''Medium'')\<rparr>]
      else []) @
     (if \<bar>Borrow_Delta_USD row\<bar> > 50000
      then [\<lparr>Type = ''Vault Borrow'', Item = Vault_Pair row,
             Amount_USD = \<bar>Borrow_Delta_USD row\<bar>, Team = Responsible_Party row,
             Priority = (if \<bar>Borrow_Delta_USD row\<bar> > 100000 then ''High'' else ''Medium'')\<rparr>]
      else []) @
     vault_priorities rows"

fun lending_priorities :: "lending_row list \<Rightarrow> priority list" where
  "lending_priorities [] = []"
| "lending_priorities (row # rows) =
     (if Rewards_USD row > 100000
      then [\<lparr>Type = ''Lending'', Item = Token row,
             Amount_USD = Rewards_USD row, Team = Lending_Responsible_Party row,
             Priority = (if Rewards_USD row > 300000 then ''High'' else ''Medium'')\<rparr>]
      else []) @
     lending_priorities rows"

definition priorities :: "vault_row list \<Rightarrow> lending_row list \<Rightarrow> priority list" where
  "priorities vault_df lending_df = vault_priorities vault_df @ lending_priorities lending_df"

subsection \<open>Timestamps: \<^verbatim>\<open>datetime.isoformat\<close> and \<^verbatim>\<open>datetime.fromisoformat\<close>\<close>

text \<open>
  A \<^verbatim>\<open>datetime\<close> of the standard library: the calendar fields and \<^verbatim>\<open>tzinfo\<close>, which is
  absent for a naive value and otherwise a fixed UTC offset, here in microseconds.
\<close>

record datetime =
  year :: nat
  month :: nat
  day :: nat
  hour :: nat
  minute :: nat
  second :: nat
  microsecond :: nat
  tzinfo :: "int option"

definition is_leap :: "nat \<Rightarrow> bool" where
  "is_leap y = (y mod 4 = 0 \<and> (y mod 100 \<noteq> 0 \<or> y mod 400 = 0))"

definition days_in_month :: "nat \<Rightarrow> nat \<Rightarrow> nat" where
  "days_in_month y m =
     (if m = 2 then (if is_leap y then 29 else 28)
      else if m = 4 \<or> m = 6 \<or> m = 9 \<or> m = 11 then 30 else 31)"

text \<open>The range checks of the \<^verbatim>\<open>datetime\<close> and \<^verbatim>\<open>timezone\<close> constructors.\<close>

definition valid_datetime :: "datetime \<Rightarrow> bool" where
  "valid_datetime d =
     (1 \<le> year d \<and> year d \<le> 9999 \<and> 1 \<le> month d \<and> month d \<le> 12 \<and>
      1 \<le> day d \<and> day d \<le> days_in_month (year d) (month d) \<and>
      hour d < 24 \<and> minute d < 60 \<and> second d < 60 \<and> microsecond d < 1000000 \<and>
      (case tzinfo d of None \<Rightarrow> True | Some off \<Rightarrow> \<bar>off\<bar> < 86400000000))"

definition digit_char :: "nat \<Rightarrow> char" where
  "digit_char n = char_of (48 + n)"

text \<open>\<^verbatim>\<open>"%0wd" % n\<close> for \<open>n < 10 ^ w\<close>, which the range checks guarantee at every use.\<close>

fun pad :: "nat \<Rightarrow> nat \<Rightarrow> string" where
  "pad 0 n = []"
| "pad (Suc w) n = pad w (n div 10) @ [digit_char (n mod 10)]"

definition format_time :: "nat \<Rightarrow> nat \<Rightarrow> nat \<Rightarrow> nat \<Rightarrow> string" where
  "format_time hh mm ss us =
     pad 2 hh @ '':'' @ pad 2 mm @ '':'' @ pad 2 ss @ (if us = 0 then [] else ''.'' @ pad 6 us)"

text \<open>
  The UTC offset as \<^verbatim>\<open>isoformat\<close> prints it: sign, hours and minutes, then the seconds if
  seconds or microseconds are not zero, then the microseconds if they are not zero.
\<close>

definition format_offset_fields :: "nat \<Rightarrow> nat \<Rightarrow> nat \<Rightarrow> nat \<Rightarrow> string" where
  "format_offset_fields hh mm ss us =
     pad 2 hh @ '':'' @ pad 2 mm @
     (if ss \<noteq> 0 \<or> us \<noteq> 0
      then '':'' @ pad 2 ss @ (if us \<noteq> 0 then ''.'' @ pad 6 us else [])
      else [])"

definition format_offset :: "int option \<Rightarrow> string" where
  "format_offset off =
     (case off of
        None \<Rightarrow> []
      | Some t \<Rightarrow>
          (if t < 0 then ''-'' else ''+'') @
          format_offset_fields (nat (\<bar>t\<bar> div 3600000000))
            (nat ((\<bar>t\<bar> mod 3600000000) div 60000000))
            (nat ((\<bar>t\<bar> mod 60000000) div 1000000))
            (nat (\<bar>t\<bar> mod 1000000)))"

definition isoformat :: "datetime \<Rightarrow> string" where
  "isoformat d =
     pad 4 (year d) @ ''-'' @ pad 2 (month d) @ ''-'' @ pad 2 (day d) @ ''T'' @
     format_time (hour d) (minute d) (second d) (microsecond d) @ format_offset (tzinfo d)"

definition is_digit :: "char \<Rightarrow> bool" where
  "is_digit c = (48 \<le> (of_char c :: nat) \<and> (of_char c :: nat) \<le> 57)"

definition digit_val :: "char \<Rightarrow> nat" where
  "digit_val c = of_char c - 48"

fun digits_from :: "nat \<Rightarrow> string \<Rightarrow> nat option" where
  "digits_from acc [] = Some acc"
| "digits_from acc (c # cs) =
     (if is_digit c then digits_from (acc * 10 + digit_val c) cs else None)"

text \<open>\<^verbatim>\<open>int(s)\<close> on a field of a timestamp: a non-empty run of decimal digits.\<close>

definition parse_int :: "string \<Rightarrow> nat option" where
  "parse_int s = (if s = [] then None else digits_from 0 s)"

text \<open>\<^verbatim>\<open>s.find(c)\<close>, with \<open>None\<close> for -1.\<close>

fun find_char :: "char \<Rightarrow> string \<Rightarrow> nat option" where
  "find_char c [] = None"
| "find_char c (x # xs) =
     (if x = c then Some 0 else map_option Suc (find_char c xs))"

definition parse_isoformat_date :: "string \<Rightarrow> (nat \<times> nat \<times> nat) option" where
  "parse_isoformat_date dtstr =
     (if length dtstr \<noteq> 10 \<or> dtstr ! 4 \<noteq> CHR ''-'' \<or> dtstr ! 7 \<noteq> CHR ''-'' then None
      else
        (case (parse_int (take 4 dtstr), parse_int (take 2 (drop 5 dtstr)),
               parse_int (take 2 (drop 8 dtstr))) of
           (Some y, Some m, Some d) \<Rightarrow> Some (y, m, d)
         | _ \<Rightarrow> None))"

text \<open>\<^verbatim>\<open>HH[:MM[:SS[.fff[fff]]]]\<close>, for the time of day and for the UTC offset.\<close>

definition parse_fraction :: "string \<Rightarrow> nat option" where
  "parse_fraction s =
     (case s of
        [] \<Rightarrow> Some 0
      | c # fr \<Rightarrow>
          (if c \<noteq> CHR ''.'' then None
           else if length fr = 6 then parse_int fr
           else if length fr = 3 then map_option (\<lambda>ms. ms * 1000) (parse_int fr)
           else None))"

definition parse_hh_mm_ss_ff :: "string \<Rightarrow> (nat \<times> nat \<times> nat \<times> nat) option" where
  "parse_hh_mm_ss_ff tstr =
     (case parse_int (take 2 tstr) of
        None \<Rightarrow> None
      | Some hh \<Rightarrow>
          (if length tstr < 2 then None
           else if drop 2 tstr = [] then Some (hh, 0, 0, 0)
           else if tstr ! 2 \<noteq> CHR '':'' then None
           else
             (case parse_int (take 2 (drop 3 tstr)) of
                None \<Rightarrow> None
              | Some mm \<Rightarrow>
                  (if length tstr < 5 then None
                   else if drop 5 tstr = [] then Some (hh, mm, 0, 0)
                   else if tstr ! 5 \<noteq> CHR '':'' then None
                   else
                     (case parse_int (take 2 (drop 6 tstr)) of
                        None \<Rightarrow> None
                      | Some ss \<Rightarrow>
                          (if length tstr < 8 then None
                           else map_option (\<lambda>us. (hh, mm, ss, us))
                                  (parse_fraction (drop 8 tstr))))))))"

definition parse_isoformat_time ::
  "string \<Rightarrow> (nat \<times> nat \<times> nat \<times> nat \<times> int option) option" where
  "parse_isoformat_time tstr =
     (if length tstr < 2 then None
      else
        (case (case find_char (CHR ''-'') tstr of
                 Some i \<Rightarrow> Some i
               | None \<Rightarrow> find_char (CHR ''+'') tstr) of
           None \<Rightarrow>
             map_option (\<lambda>(hh, mm, ss, us). (hh, mm, ss, us, None)) (parse_hh_mm_ss_ff tstr)
         | Some pos \<Rightarrow>
             (case parse_hh_mm_ss_ff (take pos tstr) of
                None \<Rightarrow> None
              | Some (hh, mm, ss, us) \<Rightarrow>
                  (let tzstr = drop (pos + 1) tstr in
                   if length tzstr \<noteq> 5 \<and> length tzstr \<noteq> 8 \<and> length tzstr \<noteq> 15 then None
                   else
                     (case parse_hh_mm_ss_ff tzstr of
                        None \<Rightarrow> None
                      | Some (th, tm, ts, tu) \<Rightarrow>
                          (let td = ((int th * 60 + int tm) * 60 + int ts) * 1000000 + int tu;
                               off = (if tstr ! pos = CHR ''-'' then - td else td)
                           in if \<bar>off\<bar> < 86400000000 then Some (hh, mm, ss, us, Some off)
                              else None))))))"

text \<open>
  \<^verbatim>\<open>datetime.fromisoformat\<close> for the format \<^verbatim>\<open>YYYY-MM-DD[*HH[:MM[:SS[.fff[fff]]]][+HH:MM[:SS[.ffffff]]]]\<close>
  of Python 3.7 to 3.10, after the library's Python implementation: the date is the first
  ten characters, the character after it is skipped, the rest is the time. \<open>None\<close> is the
  exception raised for any other string or for a field out of range.
\<close>

definition fromisoformat :: "string \<Rightarrow> datetime option" where
  "fromisoformat date_string =
     (case parse_isoformat_date (take 10 date_string) of
        None \<Rightarrow> None
      | Some (y, m, d) \<Rightarrow>
          (case (if drop 11 date_string = [] then Some (0, 0, 0, 0, None)
                 else parse_isoformat_time (drop 11 date_string)) of
             None \<Rightarrow> None
           | Some (hh, mm, ss, us, tz) \<Rightarrow>
               (let dt = \<lparr>year = y, month = m, day = d, hour = hh, minute = mm, second = ss,
                          microsecond = us, tzinfo = tz\<rparr>
                in if valid_datetime dt then Some dt else None)))"

text \<open>\<^verbatim>\<open>s.replace('Z', '+00:00')\<close>.\<close>

definition replace_Z :: "string \<Rightarrow> string" where
  "replace_Z s = concat (map (\<lambda>c. if c = CHR ''Z'' then ''+00:00'' else [c]) s)"

subsection \<open>Classified transactions\<close>

text \<open>
  One transfer of the Solscan response. A field read with \<^verbatim>\<open>tx.get(key, default)\<close> is an
  option, with \<open>None\<close> for a missing key.
\<close>

record raw_tx =
  flow :: "string option"
  from_address :: "string option"
  to_address :: "string option"
  token_address :: "string option"
  raw_amount :: "real option"
  token_decimals :: "int option"
  raw_value :: "real option"
  raw_time :: "string option"
  trans_id :: "string option"
  raw_block_id :: "int option"

record token_info =
  token_symbol :: "string option"

record metadata =
  tokens :: "(string \<rightharpoonup> token_info) option"

text \<open>
  The \<^verbatim>\<open>timestamp\<close> entry of a transaction dictionary is a \<^verbatim>\<open>datetime\<close> in memory and a
  string in the cache file; the code tells them apart with \<^verbatim>\<open>isinstance\<close>.
\<close>

datatype ts_value = Datetime datetime | Str string

record tx =
  signature :: string
  timestamp :: ts_value
  tx_type :: string
  tx_token :: string
  amount :: real
  value_usd :: real
  counterparty :: string
  tx_team :: string
  block_id :: int

datatype exn = ValueError string

fun str :: "exn \<Rightarrow> string" where
  "str (ValueError msg) = msg"

definition MIN_VALUE_USD :: real where
  "MIN_VALUE_USD = 1000"

definition ADDRESS_TAGS :: "(string \<times> string) list" where
  "ADDRESS_TAGS =
    [(''5AZYLkiU4SPYDeRMcPbPRPmiz2Ny85jWFeV4xmQsVBNo'', ''Fluid Team''),
     (''HUBLSmfDxXxxzgg4KM6Q5onHVwBG5KeKjeA2BnvE5D9r'', ''Fluid Team''),
     (''7b1zZUuae2F56e66GqpkKe1Tq1BK2ePRRuGGr8ahe2JB'', ''JUP Team''),
     (''FH9bgRZrEGFA1d4859wSBdNnHgtU5ZDqFUPccHDnYQ3p'', ''Maple''),
     (''DVBfCpHoAtVgcVLFHyUgXaWg5ZaKU8CkekXu23ZD4iod'', ''Gauntlet''),
     (''fr6yQkDmWy6R6pecbUsxXaw6EvRJznZ2HsK5frQgud8'', ''USDG Team''),
     (''8sjM83a4u2M8YZYshLGKzYxh1VHFfbgtaytwaoEg4bUJ'', ''Jito Team''),
     (''8JmDPG5BFQ6gpUPJV9xBixYJLqTKCSNotkXksTmNsQfj'', ''Sky Team''),
     (''62SJTxjWbyaPei1HPW9mFX7KMYCEp7Z9zwiL4hGa8WQv'', ''LBTC Team''),
     (''EeQmNqm1RcQnee8LTyx6ccVG9FnR8TezQuw2JXq2LC1T'', ''Sanctum INF Team''),
     (''41zCUJsKk6cMB94DDtm99qWmyMZfp4GkAhhuz4xTwePu'', ''PST Team''),
     (''JANAjsZKJhtHF9PUF8cwjVp5oQjdcHYiGiFgc8TWQjp2'', ''Binance Campaign''),
     (''3ssDYFbTpACkshGeYHMBovxB4aE2G6fbZNeVChi85J1k'', ''Binance Campaign''),
     (''7s1da8DduuBFqGra5bJBjpnvL5E9mGzCuMk1Qkh4or2Z'', ''Liquidity Layer'')]"

text \<open>\<^verbatim>\<open>d.get(key, default)\<close> on an optional field.\<close>

definition get_or :: "'a option \<Rightarrow> 'a \<Rightarrow> 'a" where
  "get_or field dflt = (case field of None \<Rightarrow> dflt | Some x \<Rightarrow> x)"

text \<open>
  \<^verbatim>\<open>get_sol_price\<close>: the argument is the answer of the vault API, \<open>None\<close> when the request
  or its decoding raises; the price of the first vault that supplies WSOL, else 150.
\<close>

fun wsol_price :: "vault list \<Rightarrow> real" where
  "wsol_price [] = 150"
| "wsol_price (v # vaults) =
     (if symbol (supplyToken v) = ''WSOL'' then price (supplyToken v) else wsol_price vaults)"

definition get_sol_price :: "vault list option \<Rightarrow> real" where
  "get_sol_price response = (case response of None \<Rightarrow> 150 | Some vaults \<Rightarrow> wsol_price vaults)"

text \<open>The local variables of the loop body of \<^verbatim>\<open>process_transactions\<close>.\<close>

definition tx_type_of :: "raw_tx \<Rightarrow> string" where
  "tx_type_of t = (if get_or (flow t) [] = ''in'' then ''Inflow'' else ''Outflow'')"

definition counterparty_of :: "raw_tx \<Rightarrow> string" where
  "counterparty_of t =
     (if get_or (flow t) [] = ''in'' then get_or (from_address t) []
      else get_or (to_address t) [])"

definition team_of :: "raw_tx \<Rightarrow> string" where
  "team_of t = get_or (map_of ADDRESS_TAGS (counterparty_of t)) ''Unknown''"

definition token_symbol_of :: "(string \<rightharpoonup> token_info) \<Rightarrow> raw_tx \<Rightarrow> string" where
  "token_symbol_of tokens_meta t =
     get_or (token_symbol (get_or (tokens_meta (get_or (token_address t) []))
                             \<lparr>token_symbol = None\<rparr>)) ''UNKNOWN''"

definition amount_of :: "raw_tx \<Rightarrow> real" where
  "amount_of t = get_or (raw_amount t) 0 / (10 powi get_or (token_decimals t) 6)"

definition value_usd_of :: "real \<Rightarrow> (string \<rightharpoonup> token_info) \<Rightarrow> raw_tx \<Rightarrow> real" where
  "value_usd_of sol_price tokens_meta t =
     (if token_symbol_of tokens_meta t \<in> set [''USDC'', ''USDT'', ''USDS'', ''USDG'', ''EURC'']
      then amount_of t * 1
      else if token_symbol_of tokens_meta t \<in> set [''SOL'', ''WSOL'']
      then amount_of t * sol_price
      else get_or (raw_value t) 0)"

definition classified :: "real \<Rightarrow> (string \<rightharpoonup> token_info) \<Rightarrow> raw_tx \<Rightarrow> datetime \<Rightarrow> tx" where
  "classified sol_price tokens_meta t ts =
     \<lparr>signature = get_or (trans_id t) [],
      timestamp = Datetime ts,
      tx_type = tx_type_of t,
      tx_token = token_symbol_of tokens_meta t,
      amount = amount_of t,
      value_usd = value_usd_of sol_price tokens_meta t,
      counterparty = counterparty_of t,
      tx_team = team_of t,
      block_id = get_or (raw_block_id t) 0\<rparr>"

text \<open>
  The loop of \<^verbatim>\<open>process_transactions\<close>, with the list \<^verbatim>\<open>processed\<close> as accumulator. A
  timestamp that does not parse raises \<^verbatim>\<open>ValueError\<close> out of the function.
\<close>

fun process_loop ::
  "real \<Rightarrow> (string \<rightharpoonup> token_info) \<Rightarrow> raw_tx list \<Rightarrow> tx list \<Rightarrow> exn + tx list" where
  "process_loop sol_price tokens_meta [] processed = Inr processed"
| "process_loop sol_price tokens_meta (t # raw_data) processed =
     (if value_usd_of sol_price tokens_meta t < MIN_VALUE_USD
      then process_loop sol_price tokens_meta raw_data processed
      else
        (case fromisoformat (replace_Z (get_or (raw_time t) [])) of
           None \<Rightarrow>
             Inl (ValueError (''Invalid isoformat string: '' @ replace_Z (get_or (raw_time t) [])))
         | Some ts \<Rightarrow>
             process_loop sol_price tokens_meta raw_data
               (processed @ [classified sol_price tokens_meta t ts])))"

definition process_transactions ::
  "vault list option \<Rightarrow> raw_tx list \<Rightarrow> metadata \<Rightarrow> exn + tx list" where
  "process_transactions vault_response raw_data meta =
     process_loop (get_sol_price vault_response) (get_or (tokens meta) Map.empty) raw_data []"

subsection \<open>The cache file\<close>

text \<open>
  The state of \<^verbatim>\<open>transaction_cache.json\<close>: no file, a file that \<^verbatim>\<open>json.load\<close> or the two
  key lookups reject, or the dictionary that \<^verbatim>\<open>save_to_cache\<close> writes. JSON holds each entry
  of a transaction as it is; a \<^verbatim>\<open>datetime\<close> is not serialisable and never reaches the file.
\<close>

record cache_data =
  last_updated :: string
  transactions :: "tx list"

datatype cache_file = Unreadable | Cached cache_data

text \<open>The loop of \<^verbatim>\<open>load_from_cache\<close> over the transactions; \<open>None\<close> is the exception.\<close>

fun parse_timestamps :: "tx list \<Rightarrow> tx list option" where
  "parse_timestamps [] = Some []"
| "parse_timestamps (t # txs) =
     (case timestamp t of
        Str s \<Rightarrow>
          (case fromisoformat s of
             None \<Rightarrow> None
           | Some d \<Rightarrow> map_option ((#) (t\<lparr>timestamp := Datetime d\<rparr>)) (parse_timestamps txs))
      | Datetime d \<Rightarrow> map_option ((#) t) (parse_timestamps txs))"

definition load_from_cache :: "cache_file option \<Rightarrow> tx list option \<times> string option" where
  "load_from_cache file =
     (case file of
        None \<Rightarrow> (None, None)
      | Some Unreadable \<Rightarrow> (None, None)
      | Some (Cached cache) \<Rightarrow>
          (case parse_timestamps (transactions cache) of
             None \<Rightarrow> (None, None)
           | Some txs \<Rightarrow> (Some txs, Some (last_updated cache))))"

definition serializable :: "tx \<Rightarrow> tx" where
  "serializable t =
     (case timestamp t of
        Datetime d \<Rightarrow> t\<lparr>timestamp := Str (isoformat d)\<rparr>
      | Str s \<Rightarrow> t)"

text \<open>\<^verbatim>\<open>save_to_cache\<close>: \<open>now\<close> is \<^verbatim>\<open>datetime.now().isoformat()\<close>; the result is the new file.\<close>

definition save_to_cache :: "string \<Rightarrow> tx list \<Rightarrow> cache_file option" where
  "save_to_cache now txs =
     Some (Cached \<lparr>last_updated = now, transactions = map serializable txs\<rparr>)"

definition clear_cache :: "cache_file option \<Rightarrow> bool \<times> cache_file option" where
  "clear_cache file = (case file of None \<Rightarrow> (False, None) | Some f \<Rightarrow> (True, None))"

subsection \<open>The paginated fetch\<close>

text \<open>
  What the process sees of the outside during one run: the API key of the environment,
  the answer of Solscan to each page request, the answer of the vault API to the price
  request made while a page is processed, and the clock at the time of the cache write.
\<close>

datatype solscan_response =
  Raises string
| Json bool "raw_tx list option" "metadata option"

record world =
  SOLSCAN_API_KEY :: "string option"
  solscan :: "int \<Rightarrow> int \<Rightarrow> solscan_response"
  vault_api :: "int \<Rightarrow> vault list option"
  clock :: string

datatype request = Solscan_Get int int | Vault_Get

text \<open>
  \<^verbatim>\<open>fetch_from_solscan\<close> returns \<^verbatim>\<open>(data, metadata, success, error)\<close>; the last component here
  is the list of requests it sent.
\<close>

definition fetch_from_solscan ::
  "world \<Rightarrow> int \<Rightarrow> int \<Rightarrow> (raw_tx list \<times> metadata \<times> bool \<times> string option) \<times> request list" where
  "fetch_from_solscan w page page_size =
     (if SOLSCAN_API_KEY w = None \<or> SOLSCAN_API_KEY w = Some []
      then (([], \<lparr>tokens = None\<rparr>, False,
             Some ''SOLSCAN_API_KEY not found in environment variables''), [])
      else
        (case solscan w page page_size of
           Raises msg \<Rightarrow>
             (([], \<lparr>tokens = None\<rparr>, False, Some msg), [Solscan_Get page page_size])
         | Json success data meta \<Rightarrow>
             (if \<not> success
              then (([], \<lparr>tokens = None\<rparr>, False, Some ''API returned success=false''),
                    [Solscan_Get page page_size])
              else ((get_or data [], get_or meta \<lparr>tokens = None\<rparr>, True, None),
                    [Solscan_Get page page_size]))))"

text \<open>
  The page loop of \<^verbatim>\<open>fetch_all_transactions\<close> over the pages still to fetch. \<open>Inl\<close> is the
  early \<^verbatim>\<open>return [], False, error\<close> or the exception that the outer handler turns into it;
  \<open>Inr\<close> is the list \<^verbatim>\<open>all_transactions\<close> when the loop ends or breaks.
\<close>

fun fetch_pages ::
  "world \<Rightarrow> int list \<Rightarrow> tx list \<Rightarrow> request list \<Rightarrow> (string option + tx list) \<times> request list" where
  "fetch_pages w [] all_transactions sent = (Inr all_transactions, sent)"
| "fetch_pages w (page # pages) all_transactions sent =
     (case fetch_from_solscan w page 40 of
        ((raw_data, meta, success, error), reqs) \<Rightarrow>
          (if \<not> success then (Inl error, sent @ reqs)
           else if raw_data = [] then (Inr all_transactions, sent @ reqs)
           else
             (case process_transactions (vault_api w page) raw_data meta of
                Inl e \<Rightarrow> (Inl (Some (str e)), sent @ reqs @ [Vault_Get])
              | Inr processed \<Rightarrow>
                  fetch_pages w pages (all_transactions @ processed)
                    (sent @ reqs @ [Vault_Get]))))"

text \<open>
  The part of \<^verbatim>\<open>fetch_all_transactions\<close> after the cache check: the page loop over
  \<^verbatim>\<open>range(1, max_pages + 1)\<close>, then the cache write if the loop did not fail. The result is
  the returned triple, the cache file after the run and the requests sent.
\<close>

definition fetch_from_network ::
  "world \<Rightarrow> cache_file option \<Rightarrow> int \<Rightarrow>
     (tx list \<times> bool \<times> string option) \<times> cache_file option \<times> request list" where
  "fetch_from_network w file max_pages =
     (case fetch_pages w [1..max_pages] [] [] of
        (Inl error, sent) \<Rightarrow> (([], False, error), file, sent)
      | (Inr all_transactions, sent) \<Rightarrow>
          ((all_transactions, True, None), save_to_cache (clock w) all_transactions, sent))"

text \<open>
  \<^verbatim>\<open>fetch_all_transactions\<close> (without a progress callback). \<^verbatim>\<open>if cached:\<close> holds for a list
  that is not empty, and fails for \<^verbatim>\<open>None\<close> and for the empty list.
\<close>

definition fetch_all_transactions ::
  "world \<Rightarrow> cache_file option \<Rightarrow> int \<Rightarrow>
     (tx list \<times> bool \<times> string option) \<times> cache_file option \<times> request list" where
  "fetch_all_transactions w file max_pages =
     (case load_from_cache file of
        (None, updated) \<Rightarrow> fetch_from_network w file max_pages
      | (Some [], updated) \<Rightarrow> fetch_from_network w file max_pages
      | (Some (t # cached), updated) \<Rightarrow> ((t # cached, True, None), file, []))"


text \<open>
  The three outcomes of one iteration of the page loop, read off \<^verbatim>\<open>fetch_from_solscan\<close> and
  \<^verbatim>\<open>process_transactions\<close>: the page yields classified transactions, the page is empty, or
  the page fails (the request fails, or a record that passes the value filter has a
  timestamp that does not parse).
\<close>

definition page_transactions :: "world \<Rightarrow> int \<Rightarrow> tx list option" where
  "page_transactions w page =
     (case fst (fetch_from_solscan w page 40) of
        (raw_data, meta, success, error) \<Rightarrow>
          (if success \<and> raw_data \<noteq> []
           then (case process_transactions (vault_api w page) raw_data meta of
                   Inl e \<Rightarrow> None
                 | Inr processed \<Rightarrow> Some processed)
           else None))"


definition page_fails :: "world \<Rightarrow> int \<Rightarrow> bool" where
  "page_fails w page =
     (case fst (fetch_from_solscan w page 40) of
        (raw_data, meta, success, error) \<Rightarrow>
          \<not> success \<or>
          (raw_data \<noteq> [] \<and> isl (process_transactions (vault_api w page) raw_data meta)))"

subsection \<open>Sample inputs\<close>

text \<open>A vault whose supply delta is 80 USD and whose borrow delta is 0.\<close>

definition quiet_vault :: vault where
  "quiet_vault = \<lparr>vault_id = 1,
     supplyToken = \<lparr>symbol = ''WSOL'', decimals = 6, price = 1\<rparr>,
     borrowToken = \<lparr>symbol = ''USDC'', decimals = 6, price = 1\<rparr>,
     totalSupply = 80000000, totalSupplyLiquidity = 0, totalBorrow = 5, totalBorrowLiquidity = 5\<rparr>"

text \<open>Vault rows with borrow deltas of 100000, -50000 and -100001 USD.\<close>

definition borrow_rows :: "vault_row list" where
  "borrow_rows =
     [\<lparr>Vault_ID = 1, Vault_Pair = ''LBTC/USDC'', Supply_Token = ''LBTC'', Borrow_Token = ''USDC'',
       Supply_Delta_Amount = 0, Supply_Delta_USD = 0, Borrow_Delta_Amount = 100000,
       Borrow_Delta_USD = 100000, Responsible_Party = ''Lombard + Fluid'',
       Incentive_Type = ''Borrow'', Supply_Token_Price = 1, Borrow_Token_Price = 1\<rparr>,
      \<lparr>Vault_ID = 2, Vault_Pair = ''PST/USDC'', Supply_Token = ''PST'', Borrow_Token = ''USDC'',
       Supply_Delta_Amount = 0, Supply_Delta_USD = 0, Borrow_Delta_Amount = - 50000,
       Borrow_Delta_USD = - 50000, Responsible_Party = ''PST Team'',
       Incentive_Type = ''Borrow'', Supply_Token_Price = 1, Borrow_Token_Price = 1\<rparr>,
      \<lparr>Vault_ID = 3, Vault_Pair = ''INF/SOL'', Supply_Token = ''INF'', Borrow_Token = ''SOL'',
       Supply_Delta_Amount = 0, Supply_Delta_USD = 0, Borrow_Delta_Amount = - 100001,
       Borrow_Delta_USD = - 100001, Responsible_Party = ''Sanctum'',
       Incentive_Type = ''Borrow'', Supply_Token_Price = 1, Borrow_Token_Price = 1\<rparr>]"



text \<open>
  Page metadata that names one token USDC, and three transfers: 5 USDC in, 2000000 USDC in,
  and a large amount of a token the metadata does not know, without a \<^verbatim>\<open>value\<close> entry and
  without a timestamp.
\<close>

definition usdc_address :: string where
  "usdc_address = ''EPjFWdd5AufqSSqeM2qN1xzybapC8G4wEGGkZwyTDt1v''"

definition usdc_meta :: metadata where
  "usdc_meta = \<lparr>tokens = Some (Map.empty(usdc_address \<mapsto> \<lparr>token_symbol = Some ''USDC''\<rparr>))\<rparr>"

definition small_transfer :: raw_tx where
  "small_transfer =
     \<lparr>flow = Some ''in'', from_address = Some ''7b1zZUuae2F56e66GqpkKe1Tq1BK2ePRRuGGr8ahe2JB'',
      to_address = Some ''Cvnta5ecoiCgNbLEXYm6kvhJMmRv3JM3ksKgTLVPg4hk'',
      token_address = Some usdc_address, raw_amount = Some 5000000, token_decimals = Some 6,
      raw_value = None, raw_time = Some ''2025-08-19T12:34:56.000Z'', trans_id = Some ''sig-small'',
      raw_block_id = Some 361000001\<rparr>"

definition large_transfer :: raw_tx where
  "large_transfer =
     \<lparr>flow = Some ''in'', from_address = Some ''7b1zZUuae2F56e66GqpkKe1Tq1BK2ePRRuGGr8ahe2JB'',
      to_address = Some ''Cvnta5ecoiCgNbLEXYm6kvhJMmRv3JM3ksKgTLVPg4hk'',
      token_address = Some usdc_address, raw_amount = Some 2000000000000, token_decimals = Some 6,
      raw_value = None, raw_time = Some ''2025-08-19T12:34:56.000Z'', trans_id = Some ''sig-large'',
      raw_block_id = Some 361000002\<rparr>"

definition unpriced_transfer :: raw_tx where
  "unpriced_transfer =
     \<lparr>flow = Some ''out'', from_address = Some ''Cvnta5ecoiCgNbLEXYm6kvhJMmRv3JM3ksKgTLVPg4hk'',
      to_address = Some ''8sjM83a4u2M8YZYshLGKzYxh1VHFfbgtaytwaoEg4bUJ'',
      token_address = Some ''J1toso1uCk3RLmjorhTtrVwY9HJ7X8V9yYac6Y7kGCPn'',
      raw_amount = Some 1000000000000000, token_decimals = Some 9,
      raw_value = None, raw_time = None, trans_id = Some ''sig-unpriced'',
      raw_block_id = Some 361000003\<rparr>"

definition large_classified :: tx where
  "large_classified =
     \<lparr>signature = ''sig-large'',
      timestamp = Datetime \<lparr>year = 2025, month = 8, day = 19, hour = 12, minute = 34,
                            second = 56, microsecond = 0, tzinfo = Some 0\<rparr>,
      tx_type = ''Inflow'', tx_token = ''USDC'', amount = 2000000, value_usd = 2000000,
      counterparty = ''7b1zZUuae2F56e66GqpkKe1Tq1BK2ePRRuGGr8ahe2JB'', tx_team = ''JUP Team'',
      block_id = 361000002\<rparr>"

text \<open>
  A transfer of 5000 USDC whose timestamp is a Unix time, not an ISO string, and three
  worlds: one whose second page holds that transfer, one whose second page is empty, and
  one in which every request times out.
\<close>

definition undated_transfer :: raw_tx where
  "undated_transfer =
     \<lparr>flow = Some ''out'', from_address = Some ''Cvnta5ecoiCgNbLEXYm6kvhJMmRv3JM3ksKgTLVPg4hk'',
      to_address = Some ''FH9bgRZrEGFA1d4859wSBdNnHgtU5ZDqFUPccHDnYQ3p'',
      token_address = Some usdc_address, raw_amount = Some 5000000000, token_decimals = Some 6,
      raw_value = None, raw_time = Some ''1755606896'', trans_id = Some ''sig-undated'',
      raw_block_id = Some 361000004\<rparr>"

definition undated_world :: world where
  "undated_world =
     \<lparr>SOLSCAN_API_KEY = Some ''key'',
      solscan = (\<lambda>page page_size.
        if page = 1 then Json True (Some [small_transfer, large_transfer]) (Some usdc_meta)
        else Json True (Some [undated_transfer]) (Some usdc_meta)),
      vault_api = (\<lambda>page. None),
      clock = ''2025-08-20T09:00:00.000001''\<rparr>"

definition two_page_world :: world where
  "two_page_world =
     \<lparr>SOLSCAN_API_KEY = Some ''key'',
      solscan = (\<lambda>page page_size.
        if page = 1 then Json True (Some [small_transfer, large_transfer]) (Some usdc_meta)
        else Json True (Some []) None),
      vault_api = (\<lambda>page. None),
      clock = ''2025-08-20T09:00:00.000001''\<rparr>"

definition offline_world :: world where
  "offline_world =
     \<lparr>SOLSCAN_API_KEY = Some ''key'',
      solscan = (\<lambda>page page_size. Raises ''timeout''),
      vault_api = (\<lambda>page. None),
      clock = ''2025-08-20T09:00:00.000001''\<rparr>"

text \<open>A cache file with no transactions, and one with the transaction above.\<close>

definition empty_cache_file :: "cache_file option" where
  "empty_cache_file =
     Some (Cached \<lparr>last_updated = ''2025-08-19T12:00:00.000001'', transactions = []\<rparr>)"

definition old_cache_file :: "cache_file option" where
  "old_cache_file =
     Some (Cached \<lparr>last_updated = ''2001-01-01T00:00:00'',
                   transactions = [large_classified\<lparr>timestamp := Str ''2025-08-19T12:34:56+00:00''\<rparr>]\<rparr>)"

section \<open>Properties\<close>

subsection \<open>Vault deltas and the priority list\<close>

lemma process_vault_data_filter:
  "process_vault_data vaults =
     map vault_row_of
       (filter (\<lambda>v. \<bar>supply_delta_usd v\<bar> > 100 \<or> \<bar>borrow_delta_usd v\<bar> > 100) vaults)"
  by (induction vaults) simp_all

text \<open>
  Claim C2. \<^verbatim>\<open>process_vault_data\<close> emits the row of a vault exactly when the absolute supply
  delta or the absolute borrow delta exceeds 100 USD; otherwise the vault contributes no row
  at all. A vault with a supply delta of 80 USD and a borrow delta of 0 produces no row.
\<close>

theorem process_vault_data_noise_floor:
  "process_vault_data vaults =
     map vault_row_of
       (filter (\<lambda>v. \<bar>supply_delta_usd v\<bar> > 100 \<or> \<bar>borrow_delta_usd v\<bar> > 100) vaults)
   \<and> (process_vault_data [v] = []) = (\<bar>supply_delta_usd v\<bar> \<le> 100 \<and> \<bar>borrow_delta_usd v\<bar> \<le> 100)
   \<and> (supply_delta_usd v = 80 \<and> borrow_delta_usd v = 0 \<longrightarrow> process_vault_data [v] = [])"
  by (auto simp: process_vault_data_filter)

theorem process_vault_data_noise_floor_witness:
  "supply_delta_usd quiet_vault = 80 \<and> borrow_delta_usd quiet_vault = 0
   \<and> process_vault_data [quiet_vault] = []"
proof -
  have s: "supply_delta_usd quiet_vault = 80"
    by (simp add: supply_delta_usd_def supply_delta_amount_def quiet_vault_def)
  have b: "borrow_delta_usd quiet_vault = 0"
    by (simp add: borrow_delta_usd_def borrow_delta_amount_def quiet_vault_def)
  from process_vault_data_noise_floor [of "[]" quiet_vault] s b show ?thesis by blast
qed

lemma vault_priorities_borrow:
  "filter (\<lambda>e. Type e = ''Vault Borrow'') (vault_priorities rows) =
     map (\<lambda>row. \<lparr>Type = ''Vault Borrow'', Item = Vault_Pair row,
                  Amount_USD = \<bar>Borrow_Delta_USD row\<bar>, Team = Responsible_Party row,
                  Priority = (if \<bar>Borrow_Delta_USD row\<bar> > 100000 then ''High'' else ''Medium'')\<rparr>)
       (filter (\<lambda>row. \<bar>Borrow_Delta_USD row\<bar> > 50000) rows)"
  by (induction rows) simp_all

lemma lending_priorities_no_borrow:
  "filter (\<lambda>e. Type e = ''Vault Borrow'') (lending_priorities rows) = []"
  by (induction rows) simp_all

text \<open>
  Claim C8. The borrow entries of the priority list are those of the vault rows whose
  absolute borrow delta is strictly greater than 50000 USD, in order; an entry is tagged High
  exactly when that amount is strictly greater than 100000 USD and Medium otherwise. So a
  borrow delta of exactly 100000 is Medium, and one of exactly 50000 has no entry.
\<close>

theorem priorities_borrow_tiers:
  "filter (\<lambda>e. Type e = ''Vault Borrow'') (priorities vault_df lending_df) =
     map (\<lambda>row. \<lparr>Type = ''Vault Borrow'', Item = Vault_Pair row,
                  Amount_USD = \<bar>Borrow_Delta_USD row\<bar>, Team = Responsible_Party row,
                  Priority = (if \<bar>Borrow_Delta_USD row\<bar> > 100000 then ''High'' else ''Medium'')\<rparr>)
       (filter (\<lambda>row. \<bar>Borrow_Delta_USD row\<bar> > 50000) vault_df)
   \<and> (\<forall>e \<in> set (priorities vault_df lending_df).
        Type e = ''Vault Borrow'' \<longrightarrow>
          Amount_USD e > 50000 \<and> (Priority e = ''High'') = (Amount_USD e > 100000)
          \<and> (Priority e = ''Medium'') = (Amount_USD e \<le> 100000))"
proof -
  let ?f = "\<lambda>row :: vault_row. \<lparr>Type = ''Vault Borrow'', Item = Vault_Pair row,
                  Amount_USD = \<bar>Borrow_Delta_USD row\<bar>, Team = Responsible_Party row,
                  Priority = (if \<bar>Borrow_Delta_USD row\<bar> > 100000 then ''High'' else ''Medium'')\<rparr>"
  have eq: "filter (\<lambda>e. Type e = ''Vault Borrow'') (priorities vault_df lending_df) =
     map ?f (filter (\<lambda>row. \<bar>Borrow_Delta_USD row\<bar> > 50000) vault_df)"
    by (simp add: priorities_def vault_priorities_borrow lending_priorities_no_borrow)
  have "Amount_USD e > 50000 \<and> (Priority e = ''High'') = (Amount_USD e > 100000)
          \<and> (Priority e = ''Medium'') = (Amount_USD e \<le> 100000)"
    if "e \<in> set (priorities vault_df lending_df)" "Type e = ''Vault Borrow''" for e
  proof -
    from that have "e \<in> set (filter (\<lambda>e. Type e = ''Vault Borrow'') (priorities vault_df lending_df))"
      by simp
    then obtain row :: vault_row where "\<bar>Borrow_Delta_USD row\<bar> > 50000" "e = ?f row"
      unfolding eq by auto
    then show ?thesis by simp
  qed
  with eq show ?thesis by blast
qed

theorem priorities_borrow_tiers_witness:
  "filter (\<lambda>e. Type e = ''Vault Borrow'') (priorities borrow_rows []) =
     [\<lparr>Type = ''Vault Borrow'', Item = ''LBTC/USDC'', Amount_USD = 100000,
       Team = ''Lombard + Fluid'', Priority = ''Medium''\<rparr>,
      \<lparr>Type = ''Vault Borrow'', Item = ''INF/SOL'', Amount_USD = 100001,
       Team = ''Sanctum'', Priority = ''High''\<rparr>]"
  using priorities_borrow_tiers [of borrow_rows "[]"]
  by (simp add: borrow_rows_def)




subsection \<open>Classification of transfers\<close>

lemma process_loop_append:
  "process_loop sp tm (xs @ ys) acc =
     (case process_loop sp tm xs acc of Inl e \<Rightarrow> Inl e | Inr acc' \<Rightarrow> process_loop sp tm ys acc')"
  by (induction xs arbitrary: acc) (simp_all split: option.splits)

lemma process_loop_Inr:
  "process_loop sp tm raw_data acc = Inr out \<Longrightarrow>
     \<exists>new. out = acc @ new
       \<and> map value_usd new =
           map (value_usd_of sp tm) (filter (\<lambda>r. \<not> value_usd_of sp tm r < MIN_VALUE_USD) raw_data)
       \<and> map signature new =
           map (\<lambda>r. get_or (trans_id r) [])
             (filter (\<lambda>r. \<not> value_usd_of sp tm r < MIN_VALUE_USD) raw_data)"
proof (induction raw_data arbitrary: acc)
  case Nil
  then show ?case by simp
next
  case (Cons r raw_data)
  show ?case
  proof (cases "value_usd_of sp tm r < MIN_VALUE_USD")
    case True
    with Cons show ?thesis by simp
  next
    case False
    with Cons.prems obtain ts where
      ts: "fromisoformat (replace_Z (get_or (raw_time r) [])) = Some ts"
      and rest: "process_loop sp tm raw_data (acc @ [classified sp tm r ts]) = Inr out"
      by (auto split: option.splits)
    from Cons.IH [OF rest] obtain new where
      new: "out = (acc @ [classified sp tm r ts]) @ new"
        "map value_usd new =
           map (value_usd_of sp tm) (filter (\<lambda>r. \<not> value_usd_of sp tm r < MIN_VALUE_USD) raw_data)"
        "map signature new =
           map (\<lambda>r. get_or (trans_id r) [])
             (filter (\<lambda>r. \<not> value_usd_of sp tm r < MIN_VALUE_USD) raw_data)"
      by blast
    have "out = acc @ (classified sp tm r ts # new)" using new(1) by simp
    moreover have "map value_usd (classified sp tm r ts # new) =
           map (value_usd_of sp tm)
             (filter (\<lambda>r. \<not> value_usd_of sp tm r < MIN_VALUE_USD) (r # raw_data))"
      using False new(2) by (simp add: classified_def)
    moreover have "map signature (classified sp tm r ts # new) =
           map (\<lambda>r. get_or (trans_id r) [])
             (filter (\<lambda>r. \<not> value_usd_of sp tm r < MIN_VALUE_USD) (r # raw_data))"
      using False new(3) by (simp add: classified_def)
    ultimately show ?thesis by blast
  qed
qed

lemma parse_sample_date: "parse_isoformat_date ''2025-08-19'' = Some (2025, 8, 19)"
  by (simp add: parse_isoformat_date_def parse_int_def is_digit_def digit_val_def)

lemma parse_sample_clock:
  "parse_isoformat_time ''12:34:56.000+00:00'' = Some (12, 34, 56, 0, Some 0)"
  by (simp add: parse_isoformat_time_def parse_hh_mm_ss_ff_def parse_fraction_def parse_int_def
      is_digit_def digit_val_def)

lemma parse_sample_time:
  "fromisoformat (replace_Z ''2025-08-19T12:34:56.000Z'') =
     Some \<lparr>year = 2025, month = 8, day = 19, hour = 12, minute = 34, second = 56,
            microsecond = 0, tzinfo = Some 0\<rparr>"
  by (simp add: replace_Z_def fromisoformat_def parse_sample_date parse_sample_clock
      valid_datetime_def days_in_month_def is_leap_def)

lemma sample_symbols:
  "token_symbol_of (get_or (tokens usdc_meta) Map.empty) small_transfer = ''USDC''"
  "token_symbol_of (get_or (tokens usdc_meta) Map.empty) large_transfer = ''USDC''"
  "token_symbol_of (get_or (tokens usdc_meta) Map.empty) unpriced_transfer = ''UNKNOWN''"
  by (simp_all add: token_symbol_of_def get_or_def usdc_meta_def small_transfer_def
      large_transfer_def unpriced_transfer_def usdc_address_def)

lemma sample_values:
  "value_usd_of sp (get_or (tokens usdc_meta) Map.empty) small_transfer = 5"
  "value_usd_of sp (get_or (tokens usdc_meta) Map.empty) large_transfer = 2000000"
  "value_usd_of sp (get_or (tokens usdc_meta) Map.empty) unpriced_transfer = 0"
  by (simp_all add: value_usd_of_def sample_symbols amount_of_def)
     (simp_all add: get_or_def small_transfer_def large_transfer_def unpriced_transfer_def)

lemma sample_classified:
  "classified sp (get_or (tokens usdc_meta) Map.empty) large_transfer
     \<lparr>year = 2025, month = 8, day = 19, hour = 12, minute = 34, second = 56,
       microsecond = 0, tzinfo = Some 0\<rparr> = large_classified"
  unfolding classified_def sample_values sample_symbols
  by (simp add: large_classified_def tx_type_of_def counterparty_of_def team_of_def
      amount_of_def ADDRESS_TAGS_def)
     (simp add: large_transfer_def get_or_def)

lemma sample_page:
  "process_transactions vr [small_transfer, large_transfer] usdc_meta = Inr [large_classified]"
proof -
  have t: "get_or (raw_time large_transfer) [] = ''2025-08-19T12:34:56.000Z''"
    by (simp add: large_transfer_def get_or_def)
  show ?thesis
    by (simp add: process_transactions_def sample_values MIN_VALUE_USD_def t parse_sample_time
        sample_classified)
qed

text \<open>
  Claim C3. When \<^verbatim>\<open>process_transactions\<close> returns, every transaction in its result has a
  USD value of at least 1000, and the result holds, in order, exactly the input records
  whose computed USD value is not below 1000: a record below the threshold leaves no row.
\<close>

theorem process_transactions_min_value:
  assumes "process_transactions vault_response raw_data meta = Inr processed"
  shows "(\<forall>t \<in> set processed. value_usd t \<ge> 1000)
    \<and> map value_usd processed =
        filter (\<lambda>v. \<not> v < 1000)
          (map (value_usd_of (get_sol_price vault_response) (get_or (tokens meta) Map.empty))
             raw_data)
    \<and> map signature processed =
        map (\<lambda>r. get_or (trans_id r) [])
          (filter (\<lambda>r. \<not> value_usd_of (get_sol_price vault_response)
                            (get_or (tokens meta) Map.empty) r < 1000) raw_data)"
proof -
  let ?sp = "get_sol_price vault_response" and ?tm = "get_or (tokens meta) Map.empty"
  from assms have "process_loop ?sp ?tm raw_data [] = Inr processed"
    by (simp add: process_transactions_def)
  from process_loop_Inr [OF this]
  have v: "map value_usd processed =
           map (value_usd_of ?sp ?tm) (filter (\<lambda>r. \<not> value_usd_of ?sp ?tm r < 1000) raw_data)"
    and s: "map signature processed =
           map (\<lambda>r. get_or (trans_id r) [])
             (filter (\<lambda>r. \<not> value_usd_of ?sp ?tm r < 1000) raw_data)"
    by (auto simp: MIN_VALUE_USD_def)
  have "\<forall>x \<in> set (map value_usd processed). x \<ge> 1000"
    unfolding v by auto
  then have "\<forall>t \<in> set processed. value_usd t \<ge> 1000" by simp
  moreover have "map value_usd processed =
        filter (\<lambda>v. \<not> v < 1000) (map (value_usd_of ?sp ?tm) raw_data)"
    unfolding v by (simp add: filter_map comp_def)
  ultimately show ?thesis using s by blast
qed

theorem process_transactions_min_value_witness:
  "process_transactions None [small_transfer, large_transfer] usdc_meta = Inr [large_classified]
   \<and> value_usd large_classified \<ge> 1000
   \<and> map value_usd [large_classified] = [2000000]
   \<and> map signature [large_classified] = [''sig-large'']"
proof -
  note r = process_transactions_min_value [OF sample_page [of None]]
  from r have "value_usd large_classified \<ge> 1000" by simp
  moreover have "map value_usd [large_classified] = [2000000]"
    "map signature [large_classified] = [''sig-large'']"
    by (simp_all add: large_classified_def)
  ultimately show ?thesis using sample_page [of None] by simp
qed

text \<open>
  Claim C10. A transfer whose token symbol is neither a stablecoin nor SOL or WSOL and
  which has no \<^verbatim>\<open>value\<close> entry is valued at 0 USD, whatever its amount, and
  \<^verbatim>\<open>process_transactions\<close> gives the same result with the record as without it.
\<close>

theorem unpriced_transfer_dropped:
  assumes "token_symbol_of (get_or (tokens meta) Map.empty) t \<notin>
             set [''USDC'', ''USDT'', ''USDS'', ''USDG'', ''EURC'', ''SOL'', ''WSOL'']"
    and "raw_value t = None"
  shows "value_usd_of sol_price (get_or (tokens meta) Map.empty) t = 0
    \<and> process_transactions vault_response (before @ t # after) meta =
        process_transactions vault_response (before @ after) meta"
proof -
  have v: "value_usd_of sp (get_or (tokens meta) Map.empty) t = 0" for sp
    using assms by (simp add: value_usd_of_def get_or_def)
  have step: "process_loop sp (get_or (tokens meta) Map.empty) (t # after) acc =
        process_loop sp (get_or (tokens meta) Map.empty) after acc" for sp acc
    by (simp add: v MIN_VALUE_USD_def)
  have "process_loop sp (get_or (tokens meta) Map.empty) (before @ t # after) [] =
        process_loop sp (get_or (tokens meta) Map.empty) (before @ after) []" for sp
    by (simp only: process_loop_append step)
  with v show ?thesis by (simp add: process_transactions_def)
qed

theorem unpriced_transfer_dropped_witness:
  "raw_amount unpriced_transfer = Some 1000000000000000
   \<and> value_usd_of 150 (get_or (tokens usdc_meta) Map.empty) unpriced_transfer = 0
   \<and> process_transactions None ([small_transfer, large_transfer] @ unpriced_transfer # []) usdc_meta =
       Inr [large_classified]"
proof -
  have s: "token_symbol_of (get_or (tokens usdc_meta) Map.empty) unpriced_transfer \<notin>
             set [''USDC'', ''USDT'', ''USDS'', ''USDG'', ''EURC'', ''SOL'', ''WSOL'']"
    by (simp add: sample_symbols)
  have n: "raw_value unpriced_transfer = None" "raw_amount unpriced_transfer = Some 1000000000000000"
    by (simp_all add: unpriced_transfer_def)
  from unpriced_transfer_dropped [OF s n(1), of 150 None "[small_transfer, large_transfer]" "[]"]
    n(2) sample_page [of None]
  show ?thesis by simp
qed

subsection \<open>The paginated fetch and the cache check\<close>

lemma fetch_pages_step:
  assumes "page_transactions w page = Some processed"
  shows "fetch_pages w (page # pages) acc sent =
           fetch_pages w pages (acc @ processed) (sent @ [Solscan_Get page 40, Vault_Get])"
  using assms
  by (auto simp: page_transactions_def fetch_from_solscan_def
      split: if_splits solscan_response.splits sum.splits prod.splits)


lemma fetch_from_solscan_cases:
  obtains (no_key) "fetch_from_solscan w page page_size =
                      (([], \<lparr>tokens = None\<rparr>, False,
                        Some ''SOLSCAN_API_KEY not found in environment variables''), [])"
  | (failed) msg where "fetch_from_solscan w page page_size =
                      (([], \<lparr>tokens = None\<rparr>, False, Some msg), [Solscan_Get page page_size])"
  | (ok) raw_data meta where "fetch_from_solscan w page page_size =
                      ((raw_data, meta, True, None), [Solscan_Get page page_size])"
proof (cases "SOLSCAN_API_KEY w = None \<or> SOLSCAN_API_KEY w = Some []")
  case True
  then show thesis using no_key by (simp add: fetch_from_solscan_def)
next
  case False
  show thesis
  proof (cases "solscan w page page_size")
    case (Raises msg)
    with False show thesis using failed [of msg] by (simp add: fetch_from_solscan_def)
  next
    case (Json success data meta)
    show thesis
    proof (cases success)
      case True
      with False Json show thesis
        using ok [of "get_or data []" "get_or meta \<lparr>tokens = None\<rparr>"]
        by (simp add: fetch_from_solscan_def)
    next
      case no: False
      with False Json show thesis
        using failed [of "''API returned success=false''"] by (simp add: fetch_from_solscan_def)
    qed
  qed
qed

lemma fetch_pages_fails:
  assumes "page_fails w page"
  shows "\<exists>msg sent'. fetch_pages w (page # pages) acc sent = (Inl (Some msg), sent')"
proof (cases rule: fetch_from_solscan_cases [of w page 40])
  case no_key
  then show ?thesis by simp
next
  case (failed msg)
  then show ?thesis by simp
next
  case (ok raw_data meta)
  with assms have "raw_data \<noteq> []" "isl (process_transactions (vault_api w page) raw_data meta)"
    by (simp_all add: page_fails_def)
  then obtain e where "process_transactions (vault_api w page) raw_data meta = Inl e"
    by (cases "process_transactions (vault_api w page) raw_data meta") simp_all
  with ok \<open>raw_data \<noteq> []\<close> show ?thesis by simp
qed

lemma fetch_pages_prefix:
  assumes "\<forall>p \<in> set ps. page_transactions w p \<noteq> None"
  shows "fetch_pages w (ps @ rest) acc sent =
           fetch_pages w rest (acc @ concat (map (\<lambda>p. the (page_transactions w p)) ps))
             (sent @ concat (map (\<lambda>p. [Solscan_Get p 40, Vault_Get]) ps))"
  using assms
proof (induction ps arbitrary: acc sent)
  case Nil
  then show ?case by simp
next
  case (Cons p ps)
  then obtain processed where p: "page_transactions w p = Some processed" by auto
  from Cons.prems have rest: "\<forall>p \<in> set ps. page_transactions w p \<noteq> None" by simp
  have "fetch_pages w ((p # ps) @ rest) acc sent =
          fetch_pages w (ps @ rest) (acc @ processed) (sent @ [Solscan_Get p 40, Vault_Get])"
    by (simp only: append_Cons fetch_pages_step [OF p])
  also have "\<dots> = fetch_pages w rest
      ((acc @ processed) @ concat (map (\<lambda>p. the (page_transactions w p)) ps))
      ((sent @ [Solscan_Get p 40, Vault_Get]) @
         concat (map (\<lambda>p. [Solscan_Get p 40, Vault_Get]) ps))"
    by (rule Cons.IH [OF rest])
  finally show ?case by (simp add: p)
qed


lemma cache_miss_network:
  assumes "fst (load_from_cache file) = None \<or> fst (load_from_cache file) = Some []"
  shows "fetch_all_transactions w file max_pages = fetch_from_network w file max_pages"
proof (cases "load_from_cache file")
  case (Pair cached updated)
  with assms show ?thesis by (auto simp: fetch_all_transactions_def)
qed

lemma sample_first_page:
  "page_transactions undated_world 1 = Some [large_classified]"
  "page_transactions two_page_world 1 = Some [large_classified]"
  by (simp_all add: page_transactions_def fetch_from_solscan_def undated_world_def
      two_page_world_def get_or_def sample_page)

lemma undated_value:
  "value_usd_of sp (get_or (tokens usdc_meta) Map.empty) undated_transfer = 5000"
proof -
  have "token_symbol_of (get_or (tokens usdc_meta) Map.empty) undated_transfer = ''USDC''"
    by (simp add: token_symbol_of_def get_or_def usdc_meta_def undated_transfer_def)
  then show ?thesis
    by (simp add: value_usd_of_def amount_of_def) (simp add: get_or_def undated_transfer_def)
qed

lemma undated_page_raises:
  "process_transactions vr [undated_transfer] usdc_meta =
     Inl (ValueError ''Invalid isoformat string: 1755606896'')"
proof -
  have t: "get_or (raw_time undated_transfer) [] = ''1755606896''"
    by (simp add: undated_transfer_def get_or_def)
  have "replace_Z ''1755606896'' = ''1755606896''" by (simp add: replace_Z_def)
  moreover have "fromisoformat ''1755606896'' = None"
    by (simp add: fromisoformat_def parse_isoformat_date_def)
  ultimately show ?thesis
    by (simp add: process_transactions_def undated_value MIN_VALUE_USD_def t)
qed

text \<open>
  Claim C6, as stated: a cache file that is present and loadable would always short-circuit
  the fetch. A loadable cache that holds no transactions does not: the request for page 1 is
  sent, and here it fails.
\<close>

theorem empty_cache_counterexample:
  "load_from_cache empty_cache_file = (Some [], Some ''2025-08-19T12:00:00.000001'')
   \<and> fetch_all_transactions offline_world empty_cache_file 5 =
       (([], False, Some ''timeout''), empty_cache_file, [Solscan_Get 1 40])"
proof -
  have l: "load_from_cache empty_cache_file = (Some [], Some ''2025-08-19T12:00:00.000001'')"
    by (simp add: load_from_cache_def empty_cache_file_def)
  have "[1..5] = (1::int) # [2..5]" by (simp add: upto_rec1)
  then have "fetch_pages offline_world [1..5] [] [] = (Inl (Some ''timeout''), [Solscan_Get 1 40])"
    by (simp add: fetch_from_solscan_def offline_world_def)
  then show ?thesis
    using l by (simp add: fetch_all_transactions_def fetch_from_network_def)
qed

text \<open>
  Claim C6, amended. If the cache file loads and holds at least one transaction, the cached
  transactions are returned with success, the file is left as it is and no request is sent,
  whatever the \<^verbatim>\<open>last_updated\<close> stamp says. A cache that loads with an empty list is treated
  like an absent one.
\<close>

theorem populated_cache_short_circuits:
  assumes "load_from_cache file = (Some cached, updated)" and "cached \<noteq> []"
  shows "fetch_all_transactions w file max_pages = ((cached, True, None), file, [])"
  using assms by (cases cached) (simp_all add: fetch_all_transactions_def)

theorem populated_cache_short_circuits_witness:
  "load_from_cache old_cache_file = (Some [large_classified], Some ''2001-01-01T00:00:00'')
   \<and> fetch_all_transactions offline_world old_cache_file 5 =
       (([large_classified], True, None), old_cache_file, [])"
proof -
  have d: "parse_isoformat_time ''12:34:56+00:00'' = Some (12, 34, 56, 0, Some 0)"
    by (simp add: parse_isoformat_time_def parse_hh_mm_ss_ff_def parse_fraction_def parse_int_def
        is_digit_def digit_val_def)
  have p: "fromisoformat ''2025-08-19T12:34:56+00:00'' =
     Some \<lparr>year = 2025, month = 8, day = 19, hour = 12, minute = 34, second = 56,
            microsecond = 0, tzinfo = Some 0\<rparr>"
    by (simp add: fromisoformat_def parse_sample_date d valid_datetime_def days_in_month_def
        is_leap_def)
  have l: "load_from_cache old_cache_file =
             (Some [large_classified], Some ''2001-01-01T00:00:00'')"
    by (simp add: load_from_cache_def old_cache_file_def p) (simp add: large_classified_def)
  from populated_cache_short_circuits [OF l, of offline_world 5] l show ?thesis by simp
qed

text \<open>
  Claim C4. Let the cache give nothing to return, and let page \<open>k\<close> of the run be fetched,
  that is, \<open>k\<close> is within \<open>max_pages\<close> and every page before it yields transactions. If page
  \<open>k\<close> fails, \<^verbatim>\<open>fetch_all_transactions\<close> returns an empty list, \<^verbatim>\<open>success = False\<close> and an
  error message, and the cache file is what it was: the transactions of the earlier pages
  are not written.
\<close>

theorem failing_page_aborts_fetch:
  assumes miss: "fst (load_from_cache file) = None \<or> fst (load_from_cache file) = Some []"
    and k: "1 \<le> k" "k \<le> max_pages"
    and before: "\<forall>p \<in> {1..<k}. page_transactions w p \<noteq> None"
    and fails: "page_fails w k"
  shows "\<exists>msg sent. fetch_all_transactions w file max_pages = (([], False, Some msg), file, sent)"
proof -
  have pages: "[1..max_pages] = [1..k - 1] @ k # [k + 1..max_pages]"
    using k by (rule upto_split3)
  have "\<forall>p \<in> set [1..k - 1]. page_transactions w p \<noteq> None"
    using before by auto
  from fetch_pages_prefix [OF this, of "k # [k + 1..max_pages]" "[]" "[]"]
  have run: "fetch_pages w [1..max_pages] [] [] =
      fetch_pages w (k # [k + 1..max_pages])
        ([] @ concat (map (\<lambda>p. the (page_transactions w p)) [1..k - 1]))
        ([] @ concat (map (\<lambda>p. [Solscan_Get p 40, Vault_Get]) [1..k - 1]))"
    by (simp only: pages)
  from fetch_pages_fails [OF fails] obtain msg sent where
    "fetch_pages w [1..max_pages] [] [] = (Inl (Some msg), sent)"
    unfolding run by blast
  then have "fetch_from_network w file max_pages = (([], False, Some msg), file, sent)"
    by (simp add: fetch_from_network_def)
  then show ?thesis
    using cache_miss_network [OF miss] by simp
qed

theorem failing_page_aborts_fetch_witness:
  "page_transactions undated_world 1 = Some [large_classified]
   \<and> page_fails undated_world 2
   \<and> (\<exists>msg sent. fetch_all_transactions undated_world None 5 = (([], False, Some msg), None, sent))"
proof -
  have miss: "fst (load_from_cache None) = None \<or> fst (load_from_cache None) = Some []"
    by (simp add: load_from_cache_def)
  have before: "\<forall>p \<in> {1..<2::int}. page_transactions undated_world p \<noteq> None"
  proof
    fix p :: int
    assume "p \<in> {1..<2}"
    then have "p = 1" by simp
    then show "page_transactions undated_world p \<noteq> None" by (simp add: sample_first_page)
  qed
  have fails: "page_fails undated_world 2"
    by (simp add: page_fails_def fetch_from_solscan_def undated_world_def get_or_def
        undated_page_raises)
  from failing_page_aborts_fetch [OF miss _ _ before fails, of 5] fails sample_first_page(1)
  show ?thesis by simp
qed





subsection \<open>Timestamps survive the cache\<close>


































end
